theory Spec2Isabelle
  imports Complex_Main
begin

section \<open>Apparent polar wander simulation: the embedding\<close>

text \<open>
  The program computes with numpy's float64. The embedding idealises float64 as exact
  real arithmetic: every finite number is a \<open>real\<close>, \<open>np.cos\<close>, \<open>np.sin\<close>,
  \<open>np.arcsin\<close> and \<open>np.sqrt\<close> are the real functions, and rounding, overflow and
  signed zeros are outside the model. The one non-finite value the code can produce
  from finite input, the NaN of \<open>0 / 0\<close> in \<open>rotation_matrix\<close>, is kept: an array
  whose entries are all NaN is the value \<open>NaN\<close> of the type \<open>'a np\<close>.
  Only properties that do not hinge on rounding are stated below: the shape of the
  result, what each entry is computed from, the failures, and values that float64
  computes exactly.
\<close>

subsection \<open>Data\<close>

datatype 'a np = Val 'a | NaN

datatype error = ValueError | IndexError

type_synonym vec3 = "real \<times> real \<times> real"

type_synonym mat3 = "vec3 \<times> vec3 \<times> vec3"

type_synonym lat_lon = "(real \<times> real) np"

record PlateMotionParameters =
  angular_velocity_deg_per_myr :: real
  rotation_axis_lat :: real
  rotation_axis_lon :: real
  total_time_myr :: real
  time_steps :: int

record SimulationResult =
  time_myr :: "real list"
  continent_lat_lon :: "lat_lon list"
  apparent_pole_lat_lon :: "lat_lon list"

subsection \<open>The numpy primitives the source calls\<close>

text \<open>
  The library functions are not part of the source; each is modelled by what numpy
  documents for it, on the reals.
\<close>

definition deg2rad :: "real \<Rightarrow> real" where
  "deg2rad d = d * (pi / 180)"

definition rad2deg :: "real \<Rightarrow> real" where
  "rad2deg r = r * (180 / pi)"

text \<open>\<open>np.clip(a, a_min, a_max)\<close> is \<open>minimum(a_max, maximum(a, a_min))\<close>.\<close>

definition clip :: "real \<Rightarrow> real \<Rightarrow> real \<Rightarrow> real" where
  "clip a a_min a_max = min a_max (max a a_min)"

text \<open>
  \<open>np.arctan2(y, x)\<close>: the angle of the point \<open>(x, y)\<close>, by quadrant, and \<open>0\<close> at the
  origin.
\<close>

definition arctan2 :: "real \<Rightarrow> real \<Rightarrow> real" where
  "arctan2 y x =
     (if 0 < x then arctan (y / x)
      else if x < 0 then (if 0 \<le> y then arctan (y / x) + pi else arctan (y / x) - pi)
      else if 0 < y then pi / 2
      else if y < 0 then - (pi / 2)
      else 0)"

text \<open>\<open>np.linalg.norm\<close> of a 3-vector: the Euclidean length.\<close>

definition norm3 :: "vec3 \<Rightarrow> real" where
  "norm3 v = (case v of (x, y, z) \<Rightarrow> sqrt (x * x + y * y + z * z))"

text \<open>\<open>rot @ v\<close>: a matrix, given by its rows, applied to a vector.\<close>

definition matvec :: "mat3 \<Rightarrow> vec3 \<Rightarrow> vec3" where
  "matvec m v =
     (case m of ((a11, a12, a13), (a21, a22, a23), (a31, a32, a33)) \<Rightarrow>
      case v of (x, y, z) \<Rightarrow>
        (a11 * x + a12 * y + a13 * z,
         a21 * x + a22 * y + a23 * z,
         a31 * x + a32 * y + a33 * z))"

text \<open>\<open>rot.T\<close>.\<close>

definition transpose3 :: "mat3 \<Rightarrow> mat3" where
  "transpose3 m =
     (case m of ((a11, a12, a13), (a21, a22, a23), (a31, a32, a33)) \<Rightarrow>
        ((a11, a21, a31), (a12, a22, a32), (a13, a23, a33)))"

text \<open>
  \<open>np.linspace(start, stop, num)\<close>: \<open>num\<close> evenly spaced samples from \<open>start\<close> to
  \<open>stop\<close> inclusive. A negative \<open>num\<close> raises ValueError; \<open>num = 0\<close> gives the empty
  array; \<open>num = 1\<close> gives \<open>[start]\<close>; otherwise sample \<open>k\<close> is \<open>start + k * step\<close> with
  \<open>step = (stop - start) / (num - 1)\<close>, and the last sample is set to \<open>stop\<close>.
\<close>

definition linspace :: "real \<Rightarrow> real \<Rightarrow> int \<Rightarrow> error + real list" where
  "linspace start stop num =
     (if num < 0 then Inl ValueError
      else if num = 1 then Inr [start]
      else
        (let step = (stop - start) / of_int (num - 1);
             y = map (\<lambda>k. start + real k * step) [0..<nat num]
         in Inr (y[nat num - 1 := stop])))"

text \<open>\<open>np.zeros((n, 2))\<close>: \<open>n\<close> rows \<open>(0, 0)\<close>.\<close>

definition zeros :: "int \<Rightarrow> error + lat_lon list" where
  "zeros n = (if n < 0 then Inl ValueError else Inr (replicate (nat n) (Val (0, 0))))"

text \<open>\<open>a[i] = v\<close> on an array: IndexError when \<open>i\<close> is out of bounds.\<close>

definition set_row :: "'a list \<Rightarrow> nat \<Rightarrow> 'a \<Rightarrow> error + 'a list" where
  "set_row a i v = (if i < length a then Inr (a[i := v]) else Inl IndexError)"

subsection \<open>The functions of the source\<close>

text \<open>
  \<open>rotation_matrix\<close> (Rodrigues' formula). The source divides the axis by its norm
  without a check: a zero axis gives \<open>0 / 0\<close>, which numpy evaluates to NaN (with a
  warning, raising nothing), and every entry of the returned matrix is then NaN.
\<close>

definition rotation_matrix :: "vec3 \<Rightarrow> real \<Rightarrow> mat3 np" where
  "rotation_matrix axis angle_rad =
     (let n = norm3 axis in
      if n = 0 then NaN
      else
        (case axis of (ax, ay, az) \<Rightarrow>
          (let x = ax / n; y = ay / n; z = az / n;
               c = cos angle_rad;
               s = sin angle_rad;
               C = 1 - c
           in Val ((c + x * x * C, x * y * C - z * s, x * z * C + y * s),
                   (y * x * C + z * s, c + y * y * C, y * z * C - x * s),
                   (z * x * C - y * s, z * y * C + x * s, c + z * z * C)))))"

definition spherical_to_cartesian :: "real \<Rightarrow> real \<Rightarrow> vec3" where
  "spherical_to_cartesian lat_deg lon_deg =
     (let lat = deg2rad lat_deg;
          lon = deg2rad lon_deg;
          x = cos lat * cos lon;
          y = cos lat * sin lon;
          z = sin lat
      in (x, y, z))"

definition cartesian_to_spherical :: "vec3 \<Rightarrow> real \<times> real" where
  "cartesian_to_spherical vector =
     (case vector of (x, y, z) \<Rightarrow>
       (let lat = rad2deg (arcsin (clip z (- 1) 1));
            lon = rad2deg (arctan2 y x)
        in (lat, lon)))"

text \<open>
  The loop of \<open>simulate_plate_motion\<close>: \<open>i\<close> is the index \<open>enumerate\<close> counts, the list
  holds the angles still to visit, and the pair holds the two arrays the body writes
  into. A NaN matrix makes both products, and so both coordinate pairs, NaN.
\<close>

fun simulate_loop ::
  "vec3 \<Rightarrow> vec3 \<Rightarrow> vec3 \<Rightarrow> nat \<Rightarrow> real list \<Rightarrow> lat_lon list \<times> lat_lon list
     \<Rightarrow> error + (lat_lon list \<times> lat_lon list)" where
  "simulate_loop axis pole_vector continent_vector i [] (cs, as) = Inr (cs, as)"
| "simulate_loop axis pole_vector continent_vector i (angle # rest) (cs, as) =
     (let rot = rotation_matrix axis angle;
          past_continent = map_np (\<lambda>r. matvec r continent_vector) rot;
          apparent_pole = map_np (\<lambda>r. matvec (transpose3 r) pole_vector) rot
      in case set_row cs i (map_np cartesian_to_spherical past_continent) of
           Inl e \<Rightarrow> Inl e
         | Inr cs' \<Rightarrow>
            (case set_row as i (map_np cartesian_to_spherical apparent_pole) of
               Inl e \<Rightarrow> Inl e
             | Inr as' \<Rightarrow>
                 simulate_loop axis pole_vector continent_vector (Suc i) rest (cs', as')))"

definition simulate_plate_motion ::
  "PlateMotionParameters \<Rightarrow> real \<Rightarrow> real \<Rightarrow> error + SimulationResult" where
  "simulate_plate_motion params continent_present_lat continent_present_lon =
     (let axis = spherical_to_cartesian (rotation_axis_lat params) (rotation_axis_lon params);
          pole_vector = (0, 0, 1);
          continent_vector = spherical_to_cartesian continent_present_lat continent_present_lon
      in case linspace 0 (total_time_myr params) (time_steps params) of
           Inl e \<Rightarrow> Inl e
         | Inr time \<Rightarrow>
            (let rotation_angles =
                   map (\<lambda>t. deg2rad (angular_velocity_deg_per_myr params * t)) time
             in case zeros (time_steps params) of
                  Inl e \<Rightarrow> Inl e
                | Inr continent_zeros \<Rightarrow>
                   (case zeros (time_steps params) of
                      Inl e \<Rightarrow> Inl e
                    | Inr apparent_zeros \<Rightarrow>
                       (case simulate_loop axis pole_vector continent_vector 0 rotation_angles
                               (continent_zeros, apparent_zeros) of
                          Inl e \<Rightarrow> Inl e
                        | Inr (cs, as) \<Rightarrow>
                            Inr \<lparr>time_myr = time,
                                 continent_lat_lon = cs,
                                 apparent_pole_lat_lon = as\<rparr>))))"

subsection \<open>Notions the proofs use\<close>


text \<open>The matrix of Rodrigues' formula for a unit axis \<open>(x, y, z)\<close>, cosine \<open>c\<close> and sine \<open>s\<close>.\<close>

definition rodrigues :: "real \<Rightarrow> real \<Rightarrow> real \<Rightarrow> real \<Rightarrow> real \<Rightarrow> mat3" where
  "rodrigues x y z c s =
     ((c + x * x * (1 - c), x * y * (1 - c) - z * s, x * z * (1 - c) + y * s),
      (y * x * (1 - c) + z * s, c + y * y * (1 - c), y * z * (1 - c) - x * s),
      (z * x * (1 - c) - y * s, z * y * (1 - c) + x * s, c + z * z * (1 - c)))"

section \<open>Trigonometry and clipping\<close>


lemma sin_cos_sq: "cos a * cos a + sin a * sin a = (1::real)"
  using sin_cos_squared_add2 [of a] by (simp add: power2_eq_square)

section \<open>Coordinate conversion\<close>

lemma unit_sphere_point:
  "(cos a * cos b) * (cos a * cos b) + (cos a * sin b) * (cos a * sin b) + sin a * sin a = (1::real)"
  using sin_cos_sq [of a] sin_cos_sq [of b] by algebra

lemma norm3_spherical_to_cartesian: "norm3 (spherical_to_cartesian lat lon) = 1"
  unfolding norm3_def spherical_to_cartesian_def Let_def prod.case unit_sphere_point
  by simp

section \<open>Rotation construction\<close>

lemma rotation_matrix_unit_axis:
  assumes "norm3 (x, y, z) = 1"
  shows "rotation_matrix (x, y, z) angle = Val (rodrigues x y z (cos angle) (sin angle))"
  using assms by (simp add: rotation_matrix_def rodrigues_def Let_def)




section \<open>The trajectory simulator\<close>

lemma linspace_neg: "num < 0 \<Longrightarrow> linspace start stop num = Inl ValueError"
  by (simp add: linspace_def)

text \<open>Setting the last sample to \<open>stop\<close> changes nothing in real arithmetic.\<close>

lemma linspace_eq:
  assumes "0 \<le> num"
  shows "linspace start stop num =
     Inr (map (\<lambda>k. start + real k * ((stop - start) / of_int (num - 1))) [0..<nat num])"
proof (cases "num = 1")
  case True
  then show ?thesis by (simp add: linspace_def)
next
  case False
  let ?y = "map (\<lambda>k. start + real k * ((stop - start) / of_int (num - 1))) [0..<nat num]"
  have "?y[nat num - 1 := stop] = ?y"
  proof (cases "num = 0")
    case True
    then show ?thesis by simp
  next
    case False
    with \<open>num \<noteq> 1\<close> assms have n: "2 \<le> num" by linarith
    then have r: "real (nat num - 1) = of_int (num - 1)"
      by (simp add: of_nat_diff)
    have "?y ! (nat num - 1) = stop"
      using n by (simp add: r)
    then show ?thesis
      using list_update_id [of ?y "nat num - 1"] by simp
  qed
  then show ?thesis using assms False by (simp add: linspace_def Let_def)
qed

lemma simulate_loop_eq:
  "i + length angles \<le> length cs \<Longrightarrow> i + length angles \<le> length as \<Longrightarrow>
   simulate_loop axis pv cv i angles (cs, as) =
     Inr (take i cs
            @ map (\<lambda>a. map_np cartesian_to_spherical
                         (map_np (\<lambda>r. matvec r cv) (rotation_matrix axis a))) angles
            @ drop (i + length angles) cs,
          take i as
            @ map (\<lambda>a. map_np cartesian_to_spherical
                         (map_np (\<lambda>r. matvec (transpose3 r) pv) (rotation_matrix axis a))) angles
            @ drop (i + length angles) as)"
proof (induction angles arbitrary: i cs as)
  case Nil
  then show ?case by simp
next
  case (Cons a rest)
  from Cons.prems have i: "i < length cs" "i < length as" by simp_all
  from Cons.prems have le: "Suc i + length rest \<le> length (cs[i := x])"
    "Suc i + length rest \<le> length (as[i := y])" for x y by simp_all
  show ?case
    using i
    by (simp add: Let_def set_row_def Cons.IH [OF le] take_Suc_conv_app_nth)
qed

lemma simulate_plate_motion_neg:
  "time_steps params < 0 \<Longrightarrow> simulate_plate_motion params clat clon = Inl ValueError"
  by (simp add: simulate_plate_motion_def linspace_neg)

text \<open>
  The result in closed form: the arrays are the images of the time samples, entry by
  entry, each from the total angle of its own sample.
\<close>

lemma simulate_plate_motion_eq:
  assumes "0 \<le> time_steps params"
  shows "simulate_plate_motion params clat clon =
     Inr \<lparr>time_myr =
            map (\<lambda>k. real k * (total_time_myr params / of_int (time_steps params - 1)))
              [0..<nat (time_steps params)],
          continent_lat_lon =
            map (\<lambda>k. Val (cartesian_to_spherical
                  (matvec
                    (case spherical_to_cartesian (rotation_axis_lat params)
                            (rotation_axis_lon params) of
                       (x, y, z) \<Rightarrow>
                         rodrigues x y z
                           (cos (deg2rad (angular_velocity_deg_per_myr params *
                              (real k * (total_time_myr params / of_int (time_steps params - 1))))))
                           (sin (deg2rad (angular_velocity_deg_per_myr params *
                              (real k * (total_time_myr params / of_int (time_steps params - 1)))))))
                    (spherical_to_cartesian clat clon))))
              [0..<nat (time_steps params)],
          apparent_pole_lat_lon =
            map (\<lambda>k. Val (cartesian_to_spherical
                  (matvec
                    (transpose3
                      (case spherical_to_cartesian (rotation_axis_lat params)
                              (rotation_axis_lon params) of
                         (x, y, z) \<Rightarrow>
                           rodrigues x y z
                             (cos (deg2rad (angular_velocity_deg_per_myr params *
                                (real k * (total_time_myr params / of_int (time_steps params - 1))))))
                             (sin (deg2rad (angular_velocity_deg_per_myr params *
                                (real k * (total_time_myr params / of_int (time_steps params - 1))))))))
                    (0, 0, 1))))
              [0..<nat (time_steps params)]\<rparr>"
proof -
  obtain x y z where a: "spherical_to_cartesian (rotation_axis_lat params)
      (rotation_axis_lon params) = (x, y, z)"
    by (cases "spherical_to_cartesian (rotation_axis_lat params) (rotation_axis_lon params)") auto
  have n: "norm3 (x, y, z) = 1"
    using norm3_spherical_to_cartesian [of "rotation_axis_lat params" "rotation_axis_lon params"]
    by (simp add: a)
  show ?thesis
    using assms
    by (simp add: simulate_plate_motion_def linspace_eq zeros_def simulate_loop_eq a
        rotation_matrix_unit_axis [OF n] comp_def)
qed

lemma sorted_samples:
  assumes "0 \<le> (step::real)"
  shows "sorted (map (\<lambda>k. real k * step) [0..<n])"
proof -
  have "sorted_wrt (\<lambda>a b. real a * step \<le> real b * step) [0..<n]"
    using sorted_wrt_upt [of 0 n]
    by (rule sorted_wrt_mono_rel [rotated]) (simp add: assms mult_right_mono)
  then show ?thesis by (simp add: sorted_map)
qed

lemma strictly_sorted_samples:
  assumes "0 < (step::real)"
  shows "sorted_wrt (<) (map (\<lambda>k. real k * step) [0..<n])"
proof -
  have "sorted_wrt (\<lambda>a b. real a * step < real b * step) [0..<n]"
    using sorted_wrt_upt [of 0 n]
    by (rule sorted_wrt_mono_rel [rotated]) (simp add: assms)
  then show ?thesis by (simp add: sorted_wrt_map)
qed

text \<open>
  Claim C1: at every time step \<open>i\<close>, with \<open>R\<close> the rotation matrix about the axis vector
  for the angle \<open>angular_velocity * time[i]\<close> in radians, the continent coordinates are the
  spherical conversion of \<open>R\<close> applied to the present-day reference vector, and the
  apparent-pole coordinates are the spherical conversion of the transpose of \<open>R\<close> applied
  to \<open>(0, 0, 1)\<close>. Each entry depends on the total angle of its own sample only.
\<close>

theorem simulate_plate_motion_steps:
  assumes "0 \<le> time_steps params"
  shows "\<exists>r. simulate_plate_motion params clat clon = Inr r
    \<and> int (length (time_myr r)) = time_steps params
    \<and> (\<forall>i < length (time_myr r).
         \<exists>R. rotation_matrix
                (spherical_to_cartesian (rotation_axis_lat params) (rotation_axis_lon params))
                (deg2rad (angular_velocity_deg_per_myr params * time_myr r ! i)) = Val R
            \<and> continent_lat_lon r ! i =
                Val (cartesian_to_spherical (matvec R (spherical_to_cartesian clat clon)))
            \<and> apparent_pole_lat_lon r ! i =
                Val (cartesian_to_spherical (matvec (transpose3 R) (0, 0, 1))))"
proof -
  obtain x y z where a: "spherical_to_cartesian (rotation_axis_lat params)
      (rotation_axis_lon params) = (x, y, z)"
    by (cases "spherical_to_cartesian (rotation_axis_lat params) (rotation_axis_lon params)") auto
  have n: "norm3 (x, y, z) = 1"
    using norm3_spherical_to_cartesian [of "rotation_axis_lat params" "rotation_axis_lon params"]
    by (simp add: a)
  show ?thesis
    unfolding simulate_plate_motion_eq [OF assms] a
    using assms by (simp add: rotation_matrix_unit_axis [OF n])
qed

theorem simulate_plate_motion_steps_witness:
  "\<exists>r. simulate_plate_motion
         \<lparr>angular_velocity_deg_per_myr = 1 / 2, rotation_axis_lat = 60, rotation_axis_lon = - 90,
          total_time_myr = 120, time_steps = 3\<rparr> 30 (- 20) = Inr r
    \<and> length (time_myr r) = 3
    \<and> (\<forall>i < length (time_myr r).
         \<exists>R. rotation_matrix (spherical_to_cartesian 60 (- 90))
                (deg2rad (1 / 2 * time_myr r ! i)) = Val R
            \<and> continent_lat_lon r ! i =
                Val (cartesian_to_spherical (matvec R (spherical_to_cartesian 30 (- 20))))
            \<and> apparent_pole_lat_lon r ! i =
                Val (cartesian_to_spherical (matvec (transpose3 R) (0, 0, 1))))"
  using simulate_plate_motion_steps
    [of "\<lparr>angular_velocity_deg_per_myr = 1 / 2, rotation_axis_lat = 60, rotation_axis_lon = - 90,
          total_time_myr = 120, time_steps = 3\<rparr>" 30 "- 20"]
  by simp

text \<open>
  Claim C4: with at least one sample and a total time that is not negative, the run
  returns a result whose three sequences all have the configured number of samples, and
  its time sequence is in increasing order (strictly, when the total time is positive).
\<close>

theorem simulate_plate_motion_shape:
  assumes "1 \<le> time_steps params" "0 \<le> total_time_myr params"
  shows "\<exists>r. simulate_plate_motion params clat clon = Inr r
    \<and> int (length (time_myr r)) = time_steps params
    \<and> int (length (continent_lat_lon r)) = time_steps params
    \<and> int (length (apparent_pole_lat_lon r)) = time_steps params
    \<and> sorted (time_myr r)
    \<and> (0 < total_time_myr params \<longrightarrow> sorted_wrt (<) (time_myr r))"
proof -
  let ?step = "total_time_myr params / of_int (time_steps params - 1)"
  have n: "0 \<le> time_steps params" using assms by simp
  have s: "0 \<le> ?step" using assms by simp
  have t: "sorted_wrt (<) (map (\<lambda>k. real k * ?step) [0..<nat (time_steps params)])"
    if "0 < total_time_myr params"
  proof (cases "time_steps params = 1")
    case True
    then show ?thesis by simp
  next
    case False
    then have "0 < ?step" using assms that by simp
    then show ?thesis by (rule strictly_sorted_samples)
  qed
  show ?thesis
    unfolding simulate_plate_motion_eq [OF n]
    using n t sorted_samples [OF s] by simp
qed

theorem simulate_plate_motion_shape_witness:
  "\<exists>r. simulate_plate_motion
         \<lparr>angular_velocity_deg_per_myr = 1 / 2, rotation_axis_lat = 60, rotation_axis_lon = - 90,
          total_time_myr = 120, time_steps = 3\<rparr> 30 (- 20) = Inr r
    \<and> length (time_myr r) = 3
    \<and> length (continent_lat_lon r) = 3
    \<and> length (apparent_pole_lat_lon r) = 3
    \<and> sorted (time_myr r)
    \<and> sorted_wrt (<) (time_myr r)"
  using simulate_plate_motion_shape
    [of "\<lparr>angular_velocity_deg_per_myr = 1 / 2, rotation_axis_lat = 60, rotation_axis_lon = - 90,
          total_time_myr = 120, time_steps = 3\<rparr>" 30 "- 20"]
  by simp

text \<open>
  Claim C10: the apparent-pole track does not depend on the continental reference point.
  Two runs with the same parameters and any two reference points either both fail, with
  the same error, or both return, with the same time sequence and the same apparent-pole
  sequence.
\<close>

theorem apparent_pole_independent_of_reference:
  "(\<exists>e. simulate_plate_motion params lat1 lon1 = Inl e
        \<and> simulate_plate_motion params lat2 lon2 = Inl e)
   \<or> (\<exists>r1 r2. simulate_plate_motion params lat1 lon1 = Inr r1
        \<and> simulate_plate_motion params lat2 lon2 = Inr r2
        \<and> time_myr r1 = time_myr r2
        \<and> apparent_pole_lat_lon r1 = apparent_pole_lat_lon r2)"
proof (cases "time_steps params < 0")
  case True
  then show ?thesis by (simp add: simulate_plate_motion_neg)
next
  case False
  then have n: "0 \<le> time_steps params" by simp
  show ?thesis
    unfolding simulate_plate_motion_eq [OF n] by simp
qed

section \<open>A reference point on the rotation axis\<close>








section \<open>Degenerate inputs\<close>

text \<open>
  With a sample count of \<open>0\<close> the run does not fail: it returns a result whose three
  sequences are empty.
\<close>

theorem zero_samples_counterexample:
  "simulate_plate_motion
     \<lparr>angular_velocity_deg_per_myr = 1 / 2, rotation_axis_lat = 60, rotation_axis_lon = - 90,
      total_time_myr = 120, time_steps = 0\<rparr> 30 (- 20)
   = Inr \<lparr>time_myr = [], continent_lat_lon = [], apparent_pole_lat_lon = []\<rparr>"
  by (simp add: simulate_plate_motion_def linspace_def zeros_def)

text \<open>
  Claim C3, amended: the source does not validate the sample count. With a sample count
  below \<open>1\<close> the run either fails with the ValueError of \<open>np.linspace\<close>, when the
  count is negative, or returns a result whose three sequences are empty, when it is \<open>0\<close>.
\<close>

theorem simulate_plate_motion_few_samples:
  assumes "time_steps params < 1"
  shows "simulate_plate_motion params clat clon =
     (if time_steps params < 0 then Inl ValueError
      else Inr \<lparr>time_myr = [], continent_lat_lon = [], apparent_pole_lat_lon = []\<rparr>)"
proof (cases "time_steps params < 0")
  case True
  then show ?thesis by (simp add: simulate_plate_motion_neg)
next
  case False
  with assms have "time_steps params = 0" by simp
  then show ?thesis by (simp add: simulate_plate_motion_def linspace_def zeros_def)
qed

theorem simulate_plate_motion_few_samples_witness:
  "simulate_plate_motion
     \<lparr>angular_velocity_deg_per_myr = 1 / 2, rotation_axis_lat = 60, rotation_axis_lon = - 90,
      total_time_myr = 120, time_steps = - 3\<rparr> 30 (- 20) = Inl ValueError"
  using simulate_plate_motion_few_samples
    [of "\<lparr>angular_velocity_deg_per_myr = 1 / 2, rotation_axis_lat = 60, rotation_axis_lon = - 90,
          total_time_myr = 120, time_steps = - 3\<rparr>" 30 "- 20"]
  by simp







end
